theory Spec2Isabelle
  imports Main
begin

section \<open>The news scraper: data model\<close>

text \<open>
  This theory embeds \<^verbatim>\<open>src/scraper.py\<close>: the \<^verbatim>\<open>Article\<close> dataclass and the methods
  \<^verbatim>\<open>_safe_find_element\<close>, \<^verbatim>\<open>scrape_news\<close>, \<^verbatim>\<open>_get_article_kicker\<close> and
  \<^verbatim>\<open>_scrape_with_selenium\<close> of \<^verbatim>\<open>NewsScraperProcessor\<close>.

  The browser is the environment of the program. Every call into it (navigation, waiting
  for a marker, looking an element up, reading its text or an attribute) either returns a
  value or raises, so each such capability is a function into a sum type, \<open>Inl\<close> carrying
  the exception raised. What the program does to the outside (navigations, lookups, log
  records, sleeps) is returned as a list of effects, in the order they happen.
\<close>

subsection \<open>Exceptions\<close>

text \<open>
  The exception classes the source names, with Selenium's class hierarchy:
  \<^verbatim>\<open>NoSuchElementException\<close> and \<^verbatim>\<open>TimeoutException\<close> are subclasses of
  \<^verbatim>\<open>WebDriverException\<close>, which is a subclass of \<^verbatim>\<open>Exception\<close>. The class
  \<open>WebDriverException\<close> below stands for every Selenium exception that is neither of the
  two named subclasses (a stale element reference, an invalid selector, a dead session).
  \<^verbatim>\<open>ValueError\<close> is what \<^verbatim>\<open>time.sleep\<close> raises for a negative argument; it is a
  subclass of \<^verbatim>\<open>Exception\<close> only. \<open>Exception\<close> stands for every other exception.
\<close>

datatype exn_class =
  NoSuchElementException | TimeoutException | WebDriverException | ValueError | Exception

datatype exn = Exn (cls: exn_class) (msg: string)

fun issubclass :: "exn_class \<Rightarrow> exn_class \<Rightarrow> bool" where
  "issubclass c Exception = True"
| "issubclass c WebDriverException =
     (c = NoSuchElementException \<or> c = TimeoutException \<or> c = WebDriverException)"
| "issubclass c d = (c = d)"

definition isinstance :: "exn \<Rightarrow> exn_class \<Rightarrow> bool" where
  "isinstance e c = issubclass (cls e) c"

subsection \<open>Python values and strings\<close>

text \<open>
  The values the fields of an article hold are strings or \<^verbatim>\<open>None\<close>
  (\<^verbatim>\<open>get_attribute\<close> returns \<^verbatim>\<open>None\<close> for an attribute the element lacks).
  \<open>truthy\<close> is Python's truth value of such a value.
\<close>

datatype pyval = PyNone | PyStr string

fun truthy :: "pyval \<Rightarrow> bool" where
  "truthy PyNone = False"
| "truthy (PyStr s) = (s \<noteq> [])"

text \<open>
  \<^verbatim>\<open>str.strip()\<close> removes leading and trailing whitespace. A \<open>char\<close> is one of 256 code
  points, and \<open>isspace\<close> lists the ones below 256 for which Python's \<^verbatim>\<open>str.isspace\<close> holds:
  9 to 13, 28 to 32, 133 and 160.
\<close>

definition isspace :: "char \<Rightarrow> bool" where
  "isspace c = (let n = (of_char c :: nat)
                in (9 \<le> n \<and> n \<le> 13) \<or> (28 \<le> n \<and> n \<le> 32) \<or> n = 133 \<or> n = 160)"

definition strip :: "string \<Rightarrow> string" where
  "strip s = rev (dropWhile isspace (rev (dropWhile isspace s)))"

subsection \<open>Element handles and effects\<close>

text \<open>
  The constants of Selenium's \<^verbatim>\<open>By\<close> (the source uses \<^verbatim>\<open>CLASS_NAME\<close>,
  \<^verbatim>\<open>CSS_SELECTOR\<close> and \<^verbatim>\<open>TAG_NAME\<close>), and a locator: the pair a
  \<^verbatim>\<open>find_element\<close> call is given.
\<close>

datatype By =
  ID | XPATH | LINK_TEXT | PARTIAL_LINK_TEXT | NAME | TAG_NAME | CLASS_NAME | CSS_SELECTOR

type_synonym locator = "By \<times> string"

text \<open>
  A \<^verbatim>\<open>WebElement\<close>: its \<^verbatim>\<open>text\<close> property, \<^verbatim>\<open>get_attribute\<close> and
  \<^verbatim>\<open>find_element\<close>; each may raise.
\<close>

datatype element = Element
  (text_of: "exn + string")
  (get_attribute: "string \<Rightarrow> exn + pyval")
  (find_element: "locator \<Rightarrow> exn + element")

datatype level = DEBUG | INFO | WARNING | ERROR

text \<open>
  The effects: \<open>Get url\<close> is \<^verbatim>\<open>driver.get(url)\<close>, \<open>Wait t l\<close> is
  \<^verbatim>\<open>WebDriverWait(driver, t).until(EC.presence_of_element_located(l))\<close>, \<open>Find l\<close> and
  \<open>FindAll l\<close> are \<^verbatim>\<open>find_element(*l)\<close> and \<^verbatim>\<open>find_elements(*l)\<close> on a container or
  on the driver, \<open>Log v\<close> is one record sent to the logger at level \<open>v\<close>, \<open>Sleep d\<close> is
  \<^verbatim>\<open>time.sleep(d)\<close>, \<open>Attempt k\<close> is the call of \<^verbatim>\<open>_scrape_with_selenium\<close> in
  iteration \<open>k\<close> of the retry loop, \<open>Quit\<close> is \<^verbatim>\<open>driver.quit()\<close>.
\<close>

datatype effect =
    Get string
  | Wait nat locator
  | Find locator
  | FindAll locator
  | Log level
  | Sleep int
  | Attempt int
  | Quit

subsection \<open>Article\<close>

text \<open>
  The dataclass \<^verbatim>\<open>Article\<close>. \<open>post_init\<close> is \<^verbatim>\<open>__post_init__\<close>; its argument \<open>now\<close>
  is the string \<^verbatim>\<open>datetime.now().isoformat()\<close> evaluates to at that moment.
  \<open>Article_init\<close> is the \<^verbatim>\<open>__init__\<close> the decorator generates: it stores the five
  arguments and then calls \<^verbatim>\<open>__post_init__\<close>. The argument \<open>scrape_date_arg\<close> is
  \<open>PyNone\<close> when the caller leaves it out.
\<close>

record Article =
  title :: string
  kicker :: string
  link :: pyval
  image :: pyval
  scrape_date :: pyval

definition post_init :: "string \<Rightarrow> Article \<Rightarrow> Article" where
  "post_init now self = self\<lparr>scrape_date := PyStr now\<rparr>"

definition Article_init :: "string \<Rightarrow> string \<Rightarrow> string \<Rightarrow> pyval \<Rightarrow> pyval \<Rightarrow> pyval \<Rightarrow> Article" where
  "Article_init now title_arg kicker_arg link_arg image_arg scrape_date_arg =
     post_init now \<lparr>title = title_arg, kicker = kicker_arg, link = link_arg,
                    image = image_arg, scrape_date = scrape_date_arg\<rparr>"

section \<open>The field extractor\<close>

text \<open>
  \<^verbatim>\<open>_safe_find_element\<close>. \<open>safe_find_element_try\<close> is the body of its \<^verbatim>\<open>try\<close> block,
  \<open>safe_find_element\<close> adds the two handlers. The second handler logs at debug level.
\<close>

definition safe_find_element_try :: "element \<Rightarrow> By \<Rightarrow> string \<Rightarrow> exn + pyval" where
  "safe_find_element_try container by' val =
     (case find_element container (by', val) of
        Inl e \<Rightarrow> Inl e
      | Inr element \<Rightarrow>
          if by' \<noteq> TAG_NAME
          then (case text_of element of Inl e \<Rightarrow> Inl e | Inr t \<Rightarrow> Inr (PyStr (strip t)))
          else get_attribute element ''src'')"

definition safe_find_element ::
  "element \<Rightarrow> By \<Rightarrow> string \<Rightarrow> pyval \<Rightarrow> (exn + pyval) \<times> effect list" where
  "safe_find_element container by' val default' =
     (case safe_find_element_try container by' val of
        Inr r \<Rightarrow> (Inr r, [Find (by', val)])
      | Inl e \<Rightarrow>
          if isinstance e NoSuchElementException then (Inr default', [Find (by', val)])
          else if isinstance e Exception then (Inr default', [Find (by', val), Log DEBUG])
          else (Inl e, [Find (by', val)]))"

section \<open>The ordered selector lists\<close>

text \<open>
  The loop over a list of kicker selectors occurs three times in the source with the same
  body: over \<^verbatim>\<open>kicker_selectors\<close> on a listing container, over
  \<^verbatim>\<open>article_kicker_selectors\<close> on the driver after a navigation, and in
  \<^verbatim>\<open>_get_article_kicker\<close>. \<open>selector_text\<close> is the body of the \<^verbatim>\<open>try\<close> block up to
  \<^verbatim>\<open>kicker_text\<close>; \<open>finder\<close> is the \<^verbatim>\<open>find_element\<close> of the container or of the driver.

  \<open>try_selectors\<close> is the loop. Its result is \<open>Inr (Some kicker_text)\<close> when the loop
  leaves through \<^verbatim>\<open>break\<close> (or \<^verbatim>\<open>return kicker_text\<close>), \<open>Inr None\<close> when the list
  is exhausted, and \<open>Inl e\<close> when an exception other than \<^verbatim>\<open>NoSuchElementException\<close>
  leaves the loop. The effects are the lookups made, in order.
\<close>

definition selector_text :: "(locator \<Rightarrow> exn + element) \<Rightarrow> locator \<Rightarrow> exn + string" where
  "selector_text finder selector =
     (case finder selector of
        Inl e \<Rightarrow> Inl e
      | Inr element \<Rightarrow> (case text_of element of Inl e \<Rightarrow> Inl e | Inr t \<Rightarrow> Inr (strip t)))"

fun try_selectors ::
  "(locator \<Rightarrow> exn + element) \<Rightarrow> locator list \<Rightarrow> (exn + string option) \<times> effect list" where
  "try_selectors finder [] = (Inr None, [])"
| "try_selectors finder (selector # rest) =
     (case selector_text finder selector of
        Inr kicker_text \<Rightarrow>
          if kicker_text \<noteq> [] then (Inr (Some kicker_text), [Find selector])
          else (case try_selectors finder rest of (r, tr) \<Rightarrow> (r, Find selector # tr))
      | Inl e \<Rightarrow>
          if isinstance e NoSuchElementException
          then (case try_selectors finder rest of (r, tr) \<Rightarrow> (r, Find selector # tr))
          else (Inl e, [Find selector]))"

definition kicker_selectors :: "locator list" where
  "kicker_selectors =
     [(CLASS_NAME, ''volanta''),
      (CLASS_NAME, ''volanta fuente_roboto_slab''),
      (CLASS_NAME, ''volanta_noticia''),
      (CLASS_NAME, ''volanta_noticia fuente_roboto_slab''),
      (CSS_SELECTOR, ''.volanta_titulo .volanta''),
      (CSS_SELECTOR, ''div.volanta'')]"

definition article_kicker_selectors :: "locator list" where
  "article_kicker_selectors =
     [(CLASS_NAME, ''volanta_noticia''),
      (CLASS_NAME, ''volanta_noticia fuente_roboto_slab''),
      (CSS_SELECTOR, ''.slot.contenido_fijo.titulo_de_noticia .volanta_noticia''),
      (CSS_SELECTOR, ''.titulo_de_noticia .volanta_noticia'')]"

section \<open>The browser session\<close>

text \<open>
  A loaded page, as the driver shows it: the outcome of waiting for a marker (\<open>None\<close>:
  the marker was located within the time limit), and the driver's \<^verbatim>\<open>find_element\<close> and
  \<^verbatim>\<open>find_elements\<close>.

  The site as one browser session sees it: whether starting Chrome, setting the page load
  timeout and quitting raise, the outcome of \<^verbatim>\<open>driver.get(url)\<close> (the exception, or the
  page the driver then shows), and the clock. \<open>clock w n\<close> is the value of
  \<^verbatim>\<open>datetime.now().isoformat()\<close> when the draft at position \<open>n\<close> becomes an Article.
  A navigation to the same address within one session has the same outcome.
\<close>

record page =
  wait_presence :: "nat \<Rightarrow> locator \<Rightarrow> exn option"
  driver_find_element :: "locator \<Rightarrow> exn + element"
  driver_find_elements :: "locator \<Rightarrow> exn + element list"

record web =
  start_chrome :: "exn option"
  set_page_load_timeout :: "exn option"
  driver_quit :: "exn option"
  driver_get :: "string \<Rightarrow> exn + page"
  clock :: "nat \<Rightarrow> string"

text \<open>
  \<^verbatim>\<open>NewsScraperProcessor\<close> with the attributes the retry loop and the pipeline read, and
  the values \<^verbatim>\<open>__init__\<close> gives them.
\<close>

record processor =
  base_url :: string
  max_retries :: int
  retry_delay :: int

definition init :: processor where
  "init = \<lparr>base_url = ''https://www.yogonet.com/international/'',
           max_retries = 3, retry_delay = 5\<rparr>"

section \<open>The listing phase\<close>

text \<open>
  The dictionary \<^verbatim>\<open>article_info\<close> always has the four keys it is created with, so it is
  a record of the four values.
\<close>

record article_info =
  info_title :: string
  info_link :: pyval
  info_kicker :: string
  info_image :: pyval

text \<open>
  \<open>title_link\<close> is the inner \<^verbatim>\<open>try\<close> block that resolves title and link (the nested
  lookup of the \<^verbatim>\<open>a\<close> below the element of class \<^verbatim>\<open>titulo\<close>).
\<close>

definition title_link :: "element \<Rightarrow> (exn + string \<times> pyval) \<times> effect list" where
  "title_link container =
     (case find_element container (CLASS_NAME, ''titulo'') of
        Inl e \<Rightarrow> (Inl e, [Find (CLASS_NAME, ''titulo'')])
      | Inr titulo \<Rightarrow>
          (case find_element titulo (TAG_NAME, ''a'') of
             Inl e \<Rightarrow> (Inl e, [Find (CLASS_NAME, ''titulo''), Find (TAG_NAME, ''a'')])
           | Inr link_element \<Rightarrow>
               (case text_of link_element of
                  Inl e \<Rightarrow> (Inl e, [Find (CLASS_NAME, ''titulo''), Find (TAG_NAME, ''a'')])
                | Inr t \<Rightarrow>
                    (case get_attribute link_element ''href'' of
                       Inl e \<Rightarrow> (Inl e, [Find (CLASS_NAME, ''titulo''), Find (TAG_NAME, ''a'')])
                     | Inr href \<Rightarrow>
                         (Inr (strip t, href),
                          [Find (CLASS_NAME, ''titulo''), Find (TAG_NAME, ''a'')])))))"

text \<open>
  \<open>extract_container_try\<close> is the body of the first loop inside its outer \<^verbatim>\<open>try\<close>:
  \<open>Inr None\<close> is \<^verbatim>\<open>continue\<close>, \<open>Inr (Some info)\<close> is
  \<^verbatim>\<open>article_data.append(article_info)\<close>. \<open>extract_container\<close> adds the handler
  \<^verbatim>\<open>except Exception\<close>, which logs and continues.
\<close>

definition extract_container_try :: "element \<Rightarrow> (exn + article_info option) \<times> effect list" where
  "extract_container_try container =
     (case title_link container of
        (Inl e, tr) \<Rightarrow>
          if isinstance e NoSuchElementException then (Inr None, tr) else (Inl e, tr)
      | (Inr (t, href), tr) \<Rightarrow>
          if t = [] then (Inr None, tr)
          else
            (case try_selectors (find_element container) kicker_selectors of
               (Inl e, tr2) \<Rightarrow> (Inl e, tr @ tr2)
             | (Inr k, tr2) \<Rightarrow>
                 (case safe_find_element container TAG_NAME ''img'' (PyStr '''') of
                    (Inl e, tr3) \<Rightarrow> (Inl e, tr @ tr2 @ tr3)
                  | (Inr img, tr3) \<Rightarrow>
                      (Inr (Some \<lparr>info_title = t, info_link = href,
                                   info_kicker = (case k of None \<Rightarrow> '''' | Some kt \<Rightarrow> kt),
                                   info_image = img\<rparr>),
                       tr @ tr2 @ tr3))))"

definition extract_container :: "element \<Rightarrow> (exn + article_info option) \<times> effect list" where
  "extract_container container =
     (case extract_container_try container of
        (Inl e, tr) \<Rightarrow>
          if isinstance e Exception then (Inr None, tr @ [Log ERROR]) else (Inl e, tr)
      | (Inr r, tr) \<Rightarrow> (Inr r, tr))"

text \<open>
  The first loop, over \<^verbatim>\<open>article_containers\<close>: the drafts appended, in the order of
  the containers.
\<close>

fun extract_containers :: "element list \<Rightarrow> (exn + article_info list) \<times> effect list" where
  "extract_containers [] = (Inr [], [])"
| "extract_containers (container # rest) =
     (case extract_container container of
        (Inl e, tr) \<Rightarrow> (Inl e, tr)
      | (Inr r, tr) \<Rightarrow>
          (case extract_containers rest of
             (Inl e, tr') \<Rightarrow> (Inl e, tr @ tr')
           | (Inr article_data, tr') \<Rightarrow>
               (Inr (case r of None \<Rightarrow> article_data | Some info \<Rightarrow> info # article_data),
                tr @ tr')))"

section \<open>The detail-page phase\<close>

text \<open>
  \<open>process_article_info_try\<close> is the body of the second loop inside its outer
  \<^verbatim>\<open>try\<close>, for one \<^verbatim>\<open>article_info\<close>; \<open>now_iso\<close> is the clock reading when the Article
  is constructed. \<open>Inr None\<close> is \<^verbatim>\<open>continue\<close>, \<open>Inr (Some article)\<close> is
  \<^verbatim>\<open>articles.append(article)\<close>. The condition
  \<^verbatim>\<open>not article_info['kicker'] and article_info['link']\<close> holds when the kicker is the
  empty string and the link is a non-empty string \<open>url\<close>; the effects of that branch
  start with the log record and \<open>Get url\<close>. \<open>process_article_info\<close> adds the handler
  \<^verbatim>\<open>except Exception\<close>, which logs and continues.
\<close>

definition build_article :: "string \<Rightarrow> article_info \<Rightarrow> Article" where
  "build_article now_iso info =
     Article_init now_iso (info_title info) (info_kicker info) (info_link info)
       (info_image info) PyNone"

definition recover_kicker ::
  "web \<Rightarrow> string \<Rightarrow> article_info \<Rightarrow> (exn + article_info option) \<times> effect list" where
  "recover_kicker w url info =
     (case driver_get w url of
        Inl e \<Rightarrow>
          if isinstance e TimeoutException then (Inr None, [Log INFO, Get url, Log ERROR])
          else if isinstance e WebDriverException
          then (Inr None, [Log INFO, Get url, Log ERROR])
          else (Inl e, [Log INFO, Get url])
      | Inr pg \<Rightarrow>
          (case wait_presence pg 10 (CLASS_NAME, ''contenido_noticia'') of
             Some e \<Rightarrow>
               if isinstance e TimeoutException
               then (Inr None,
                     [Log INFO, Get url, Wait 10 (CLASS_NAME, ''contenido_noticia''), Log ERROR])
               else (Inl e, [Log INFO, Get url, Wait 10 (CLASS_NAME, ''contenido_noticia'')])
           | None \<Rightarrow>
               (case try_selectors (driver_find_element pg) article_kicker_selectors of
                  (Inl e, tr) \<Rightarrow>
                    (Inl e,
                     [Log INFO, Get url, Wait 10 (CLASS_NAME, ''contenido_noticia'')] @ tr)
                | (Inr k, tr) \<Rightarrow>
                    (Inr (Some (case k of None \<Rightarrow> info
                                | Some kicker_text \<Rightarrow> info\<lparr>info_kicker := kicker_text\<rparr>)),
                     [Log INFO, Get url, Wait 10 (CLASS_NAME, ''contenido_noticia'')] @ tr))))"

definition process_article_info_try ::
  "web \<Rightarrow> string \<Rightarrow> article_info \<Rightarrow> (exn + Article option) \<times> effect list" where
  "process_article_info_try w now_iso info =
     (case (if info_kicker info = [] \<and> truthy (info_link info)
            then (case info_link info of
                    PyStr url \<Rightarrow> recover_kicker w url info
                  | PyNone \<Rightarrow> (Inr (Some info), []))
            else (Inr (Some info), [])) of
        (Inl e, tr) \<Rightarrow> (Inl e, tr)
      | (Inr None, tr) \<Rightarrow> (Inr None, tr)
      | (Inr (Some info'), tr) \<Rightarrow> (Inr (Some (build_article now_iso info')), tr @ [Log INFO]))"

definition process_article_info ::
  "web \<Rightarrow> string \<Rightarrow> article_info \<Rightarrow> (exn + Article option) \<times> effect list" where
  "process_article_info w now_iso info =
     (case process_article_info_try w now_iso info of
        (Inl e, tr) \<Rightarrow>
          if isinstance e Exception then (Inr None, tr @ [Log ERROR]) else (Inl e, tr)
      | (Inr r, tr) \<Rightarrow> (Inr r, tr))"

text \<open>
  The second loop, over \<^verbatim>\<open>article_data\<close>; \<open>n\<close> is the position of the first draft of
  the list in \<^verbatim>\<open>article_data\<close>.
\<close>

fun process_article_data ::
  "web \<Rightarrow> nat \<Rightarrow> article_info list \<Rightarrow> (exn + Article list) \<times> effect list" where
  "process_article_data w n [] = (Inr [], [])"
| "process_article_data w n (info # rest) =
     (case process_article_info w (clock w n) info of
        (Inl e, tr) \<Rightarrow> (Inl e, tr)
      | (Inr r, tr) \<Rightarrow>
          (case process_article_data w (Suc n) rest of
             (Inl e, tr') \<Rightarrow> (Inl e, tr @ tr')
           | (Inr articles, tr') \<Rightarrow>
               (Inr (case r of None \<Rightarrow> articles | Some article \<Rightarrow> article # articles),
                tr @ tr')))"

section \<open>The pipeline\<close>

text \<open>
  \<open>scrape_try\<close> is the \<^verbatim>\<open>try\<close> block of \<^verbatim>\<open>_scrape_with_selenium\<close>: the navigation to
  the listing, the wait for its marker, and the two loops. Its handlers for the navigation
  and for the wait log and raise again.
\<close>

definition scrape_try :: "processor \<Rightarrow> web \<Rightarrow> (exn + Article list) \<times> effect list" where
  "scrape_try p w =
     (case driver_get w (base_url p) of
        Inl e \<Rightarrow>
          (Inl e,
           [Log INFO, Get (base_url p)] @
           (if isinstance e TimeoutException then [Log ERROR]
            else if isinstance e WebDriverException then [Log ERROR] else []))
      | Inr pg \<Rightarrow>
          (case wait_presence pg 20 (CLASS_NAME, ''contenedor_dato_modulo'') of
             Some e \<Rightarrow>
               (Inl e,
                [Log INFO, Get (base_url p), Wait 20 (CLASS_NAME, ''contenedor_dato_modulo'')] @
                (if isinstance e TimeoutException then [Log ERROR] else []))
           | None \<Rightarrow>
               (case driver_find_elements pg (CLASS_NAME, ''contenedor_dato_modulo'') of
                  Inl e \<Rightarrow>
                    (Inl e,
                     [Log INFO, Get (base_url p),
                      Wait 20 (CLASS_NAME, ''contenedor_dato_modulo''),
                      FindAll (CLASS_NAME, ''contenedor_dato_modulo'')])
                | Inr article_containers \<Rightarrow>
                    (case extract_containers article_containers of
                       (Inl e, tr1) \<Rightarrow>
                         (Inl e,
                          [Log INFO, Get (base_url p),
                           Wait 20 (CLASS_NAME, ''contenedor_dato_modulo''),
                           FindAll (CLASS_NAME, ''contenedor_dato_modulo''), Log INFO] @ tr1)
                     | (Inr article_data, tr1) \<Rightarrow>
                         (case process_article_data w 0 article_data of
                            (r, tr2) \<Rightarrow>
                              (r,
                               [Log INFO, Get (base_url p),
                                Wait 20 (CLASS_NAME, ''contenedor_dato_modulo''),
                                FindAll (CLASS_NAME, ''contenedor_dato_modulo''), Log INFO]
                               @ tr1 @ tr2))))))"

text \<open>
  \<^verbatim>\<open>_scrape_with_selenium\<close> inside the context manager \<^verbatim>\<open>_create_driver\<close>: when
  Chrome does not start there is no driver to quit; otherwise \<^verbatim>\<open>driver.quit()\<close> runs on
  every way out, and an exception it raises replaces the outcome. The handler of the
  \<^verbatim>\<open>try\<close> block logs and raises again.
\<close>

definition scrape_with_selenium :: "processor \<Rightarrow> web \<Rightarrow> (exn + Article list) \<times> effect list" where
  "scrape_with_selenium p w =
     (case start_chrome w of
        Some e \<Rightarrow> (Inl e, [])
      | None \<Rightarrow>
          (case set_page_load_timeout w of
             Some e \<Rightarrow>
               (case driver_quit w of
                  Some e' \<Rightarrow> (Inl e', [Quit])
                | None \<Rightarrow> (Inl e, [Quit]))
           | None \<Rightarrow>
               (case scrape_try p w of
                  (r, tr) \<Rightarrow>
                    (case driver_quit w of
                       Some e' \<Rightarrow>
                         (Inl e', tr @ (case r of Inl e \<Rightarrow> [Log ERROR] | Inr a \<Rightarrow> []) @ [Quit])
                     | None \<Rightarrow>
                         (r, tr @ (case r of Inl e \<Rightarrow> [Log ERROR] | Inr a \<Rightarrow> []) @ [Quit])))))"

section \<open>The retry loop\<close>

text \<open>
  \<^verbatim>\<open>scrape_news\<close>. \<open>webs attempt\<close> is the site as the session of that attempt sees it.
  \<open>scrape_news_loop\<close> is the \<^verbatim>\<open>for\<close> loop over the attempts still to make,
  \<open>py_range n\<close> is \<^verbatim>\<open>range(n)\<close>. The effects of the retry loop are its own (the calls
  of the pipeline, the log records, the sleeps); those of the pipeline are the second
  component of \<open>scrape_with_selenium\<close>.

  \<open>sleep d\<close> is \<^verbatim>\<open>time.sleep(d)\<close>: it raises \<^verbatim>\<open>ValueError\<close> for a negative
  \<open>d\<close>. The call is made inside the \<^verbatim>\<open>except\<close> handler of the loop, so that exception
  leaves \<^verbatim>\<open>scrape_news\<close>.
\<close>

definition sleep :: "int \<Rightarrow> exn option" where
  "sleep d = (if d < 0 then Some (Exn ValueError ''sleep length must be non-negative'')
              else None)"

definition py_range :: "int \<Rightarrow> int list" where
  "py_range n = [0..n - 1]"

fun scrape_news_loop ::
  "processor \<Rightarrow> (int \<Rightarrow> web) \<Rightarrow> int list \<Rightarrow> (exn + Article list) \<times> effect list" where
  "scrape_news_loop p webs [] = (Inr [], [])"
| "scrape_news_loop p webs (attempt # rest) =
     (case fst (scrape_with_selenium p (webs attempt)) of
        Inr articles \<Rightarrow>
          if articles \<noteq> [] then (Inr articles, [Attempt attempt])
          else (case scrape_news_loop p webs rest of
                  (r, tr) \<Rightarrow> (r, [Attempt attempt, Log WARNING] @ tr))
      | Inl e \<Rightarrow>
          if attempt < max_retries p - 1
          then (case sleep (retry_delay p) of
                  Some e' \<Rightarrow>
                    (Inl e', [Attempt attempt, Log ERROR, Log INFO, Sleep (retry_delay p)])
                | None \<Rightarrow>
                    (case scrape_news_loop p webs rest of
                       (r, tr) \<Rightarrow>
                         (r, [Attempt attempt, Log ERROR, Log INFO, Sleep (retry_delay p)]
                             @ tr)))
          else (Inl e, [Attempt attempt, Log ERROR, Log ERROR]))"

definition scrape_news :: "processor \<Rightarrow> (int \<Rightarrow> web) \<Rightarrow> (exn + Article list) \<times> effect list" where
  "scrape_news p webs = scrape_news_loop p webs (py_range (max_retries p))"

section \<open>The unused helper\<close>

text \<open>
  \<^verbatim>\<open>_get_article_kicker\<close>, which nothing calls: the same recovery as a function of the
  session and the address, with its own marker. Any exception makes it return the empty
  string.
\<close>

definition get_article_kicker_try :: "web \<Rightarrow> string \<Rightarrow> (exn + string) \<times> effect list" where
  "get_article_kicker_try w url =
     (case driver_get w url of
        Inl e \<Rightarrow> (Inl e, [Get url])
      | Inr pg \<Rightarrow>
          (case wait_presence pg 10 (CLASS_NAME, ''volanta_noticia'') of
             Some e \<Rightarrow> (Inl e, [Get url, Wait 10 (CLASS_NAME, ''volanta_noticia'')])
           | None \<Rightarrow>
               (case try_selectors (driver_find_element pg) article_kicker_selectors of
                  (Inl e, tr) \<Rightarrow>
                    (Inl e, [Get url, Wait 10 (CLASS_NAME, ''volanta_noticia'')] @ tr)
                | (Inr k, tr) \<Rightarrow>
                    (Inr (case k of None \<Rightarrow> '''' | Some kicker_text \<Rightarrow> kicker_text),
                     [Get url, Wait 10 (CLASS_NAME, ''volanta_noticia'')] @ tr))))"

definition get_article_kicker :: "web \<Rightarrow> string \<Rightarrow> (exn + string) \<times> effect list" where
  "get_article_kicker w url =
     (case get_article_kicker_try w url of
        (Inl e, tr) \<Rightarrow>
          if isinstance e Exception then (Inr '''', tr @ [Log ERROR]) else (Inl e, tr)
      | (Inr k, tr) \<Rightarrow> (Inr k, tr))"

section \<open>Vocabulary of the statements\<close>

text \<open>
  These two predicates describe the page, not the program: they read the handle's lookup
  and the text of the element it finds. A selector \<open>yields\<close> on a handle when the
  lookup finds an element whose text has a character that is not whitespace; it is
  \<open>passed_over\<close> when the element is absent (\<^verbatim>\<open>NoSuchElementException\<close> from the
  lookup or from reading the text) or its text is whitespace only. The third possibility
  is a lookup that raises another exception.
\<close>

definition yields :: "(locator \<Rightarrow> exn + element) \<Rightarrow> locator \<Rightarrow> bool" where
  "yields finder selector =
     (case finder selector of
        Inl e \<Rightarrow> False
      | Inr element \<Rightarrow>
          (case text_of element of
             Inl e \<Rightarrow> False
           | Inr t \<Rightarrow> (\<exists>c\<in>set t. \<not> isspace c)))"

definition passed_over :: "(locator \<Rightarrow> exn + element) \<Rightarrow> locator \<Rightarrow> bool" where
  "passed_over finder selector =
     (case finder selector of
        Inl e \<Rightarrow> cls e = NoSuchElementException
      | Inr element \<Rightarrow>
          (case text_of element of
             Inl e \<Rightarrow> cls e = NoSuchElementException
           | Inr t \<Rightarrow> (\<forall>c\<in>set t. isspace c)))"

text \<open>A listing item has a title when the nested lookup succeeds with a non-empty title.\<close>

definition has_title :: "element \<Rightarrow> bool" where
  "has_title container =
     (case fst (title_link container) of Inr (t, href) \<Rightarrow> t \<noteq> [] | Inl e \<Rightarrow> False)"



text \<open>The calls of the pipeline and the sleeps among the effects of the retry loop.\<close>

fun is_Attempt :: "effect \<Rightarrow> bool" where
  "is_Attempt (Attempt k) = True"
| "is_Attempt x = False"

fun is_Sleep :: "effect \<Rightarrow> bool" where
  "is_Sleep (Sleep d) = True"
| "is_Sleep x = False"

text \<open>An attempt succeeds when it returns a non-empty list.\<close>

definition succeeded :: "exn + Article list \<Rightarrow> bool" where
  "succeeded r = (case r of Inr articles \<Rightarrow> articles \<noteq> [] | Inl e \<Rightarrow> False)"

section \<open>Concrete inputs\<close>

text \<open>
  An element with the given text, attributes and children; an attribute it lacks reads as
  \<^verbatim>\<open>None\<close>, a child it lacks raises \<^verbatim>\<open>NoSuchElementException\<close>.
\<close>

definition no_such :: exn where
  "no_such = Exn NoSuchElementException ''no such element''"

definition elem :: "string \<Rightarrow> (string \<times> pyval) list \<Rightarrow> (locator \<times> element) list \<Rightarrow> element" where
  "elem t attrs children =
     Element (Inr t)
       (\<lambda>a. Inr (case map_of attrs a of None \<Rightarrow> PyNone | Some v \<Rightarrow> v))
       (\<lambda>l. case map_of children l of None \<Rightarrow> Inl no_such | Some c \<Rightarrow> Inr c)"

text \<open>
  Four listing items: A has a kicker in the listing (with spaces around it) and an image; B has no kicker and an
  \<^verbatim>\<open>img\<close> without \<^verbatim>\<open>src\<close>; the third has a link but a title of spaces only; the
  fourth has no title element.
\<close>

definition item_a :: element where
  "item_a = elem '''' []
     [((CLASS_NAME, ''titulo''),
       elem '''' [] [((TAG_NAME, ''a''), elem '' Title A '' [(''href'', PyStr ''https://x/a'')] [])]),
      ((CLASS_NAME, ''volanta''), elem ''  Breaking '' [] []),
      ((TAG_NAME, ''img''), elem '''' [(''src'', PyStr ''https://x/a.jpg'')] [])]"

definition item_b :: element where
  "item_b = elem '''' []
     [((CLASS_NAME, ''titulo''),
       elem '''' [] [((TAG_NAME, ''a''), elem ''Title B'' [(''href'', PyStr ''https://x/b'')] [])]),
      ((TAG_NAME, ''img''), elem '''' [] [])]"

definition item_blank :: element where
  "item_blank = elem '''' []
     [((CLASS_NAME, ''titulo''),
       elem '''' [] [((TAG_NAME, ''a''), elem ''   '' [(''href'', PyStr ''https://x/c'')] [])])]"

definition item_bare :: element where
  "item_bare = elem ''text only'' [] []"

definition draft_b :: article_info where
  "draft_b = \<lparr>info_title = ''Title B'', info_link = PyStr ''https://x/b'',
              info_kicker = '''', info_image = PyNone\<rparr>"

text \<open>
  A page: the markers present, the elements the driver finds, and the lists it finds. A
  marker that is absent makes the wait time out.
\<close>

definition timed_out :: exn where
  "timed_out = Exn TimeoutException ''timeout''"

definition mk_page ::
  "locator list \<Rightarrow> (locator \<times> element) list \<Rightarrow> (locator \<times> element list) list \<Rightarrow> page" where
  "mk_page markers children groups =
     \<lparr>wait_presence = (\<lambda>t l. if l \<in> set markers then None else Some timed_out),
      driver_find_element =
        (\<lambda>l. case map_of children l of None \<Rightarrow> Inl no_such | Some c \<Rightarrow> Inr c),
      driver_find_elements =
        (\<lambda>l. Inr (case map_of groups l of None \<Rightarrow> [] | Some cs \<Rightarrow> cs))\<rparr>"

definition listing_page :: page where
  "listing_page = mk_page [(CLASS_NAME, ''contenedor_dato_modulo'')] []
     [((CLASS_NAME, ''contenedor_dato_modulo''), [item_a, item_blank, item_b])]"

definition listing_b_page :: page where
  "listing_b_page = mk_page [(CLASS_NAME, ''contenedor_dato_modulo'')] []
     [((CLASS_NAME, ''contenedor_dato_modulo''), [item_b])]"

definition empty_listing_page :: page where
  "empty_listing_page = mk_page [(CLASS_NAME, ''contenedor_dato_modulo'')] []
     [((CLASS_NAME, ''contenedor_dato_modulo''), [item_blank, item_bare])]"

text \<open>The page of article B shows a kicker under the third page-scoped selector only.\<close>

definition detail_page_b :: page where
  "detail_page_b = mk_page [(CLASS_NAME, ''contenido_noticia'')]
     [((CSS_SELECTOR, ''.slot.contenido_fijo.titulo_de_noticia .volanta_noticia''),
       elem '' Recovered '' [] [])] []"

text \<open>
  A site: the pages by address, every other navigation times out. In \<open>good_web\<close> the
  listing and the page of B load; in \<open>plain_web\<close> the listing shows B only and the
  page of B loads with a kicker element of spaces only; in \<open>timeout_web\<close> the listing shows B only and the
  page of B times out; in \<open>empty_web\<close> the listing has two items, both without a
  title; in \<open>down_web\<close> every
  navigation raises a \<^verbatim>\<open>WebDriverException\<close>.
\<close>

definition mk_web :: "(string \<times> page) list \<Rightarrow> web" where
  "mk_web pages =
     \<lparr>start_chrome = None, set_page_load_timeout = None, driver_quit = None,
      driver_get = (\<lambda>url. case map_of pages url of None \<Rightarrow> Inl timed_out | Some pg \<Rightarrow> Inr pg),
      clock = (\<lambda>n. ''2025-01-01T00:00:00'')\<rparr>"

definition good_web :: web where
  "good_web = mk_web [(base_url init, listing_page), (''https://x/b'', detail_page_b)]"

definition plain_page_b :: page where
  "plain_page_b = mk_page [(CLASS_NAME, ''contenido_noticia'')]
     [((CLASS_NAME, ''volanta_noticia''), elem ''   '' [] [])] []"

definition plain_web :: web where
  "plain_web = mk_web [(base_url init, listing_b_page), (''https://x/b'', plain_page_b)]"

definition timeout_web :: web where
  "timeout_web = mk_web [(base_url init, listing_b_page)]"

definition empty_web :: web where
  "empty_web = mk_web [(base_url init, empty_listing_page)]"

definition session_fault :: "int \<Rightarrow> exn" where
  "session_fault k = Exn WebDriverException (if k = 2 then ''last fault'' else ''fault'')"

definition down_web :: "int \<Rightarrow> web" where
  "down_web k = (mk_web []) \<lparr>driver_get := (\<lambda>url. Inl (session_fault k))\<rparr>"

text \<open>The two articles \<open>good_web\<close> gives, and three runs of the retry loop.\<close>

definition article_a :: Article where
  "article_a = \<lparr>title = ''Title A'', kicker = ''Breaking'', link = PyStr ''https://x/a'',
                image = PyStr ''https://x/a.jpg'', scrape_date = PyStr ''2025-01-01T00:00:00''\<rparr>"

definition article_b :: Article where
  "article_b = \<lparr>title = ''Title B'', kicker = ''Recovered'', link = PyStr ''https://x/b'',
                image = PyNone, scrape_date = PyStr ''2025-01-01T00:00:00''\<rparr>"

definition soft_then_good :: "int \<Rightarrow> web" where
  "soft_then_good k = (if k = 0 then empty_web else good_web)"

definition hard_then_good :: "int \<Rightarrow> web" where
  "hard_then_good k = (if k = 0 then down_web 0 else good_web)"

definition hard_hard_soft :: "int \<Rightarrow> web" where
  "hard_hard_soft k = (if k = 2 then empty_web else down_web k)"

section \<open>Properties\<close>

subsection \<open>Evaluation of the concrete inputs\<close>

lemmas input_defs = good_web_def plain_web_def plain_page_b_def timeout_web_def empty_web_def down_web_def mk_web_def
  listing_page_def listing_b_page_def empty_listing_page_def detail_page_b_def mk_page_def
  item_a_def item_b_def item_blank_def item_bare_def elem_def no_such_def timed_out_def
  init_def draft_b_def session_fault_def article_a_def article_b_def

lemmas code_defs = scrape_with_selenium_def scrape_try_def process_article_info_def
  process_article_info_try_def recover_kicker_def build_article_def Article_init_def
  post_init_def extract_container_def extract_container_try_def title_link_def
  safe_find_element_def safe_find_element_try_def selector_text_def kicker_selectors_def
  article_kicker_selectors_def strip_def isspace_def isinstance_def

lemma init_simps:
  "max_retries init = 3" "retry_delay init = 5"
  by (simp_all add: init_def)

lemma good_run: "fst (scrape_with_selenium init good_web) = Inr [article_a, article_b]"
  by (simp add: input_defs code_defs)

lemma empty_run: "fst (scrape_with_selenium init empty_web) = Inr []"
  by (simp add: input_defs code_defs)

lemma down_run: "fst (scrape_with_selenium init (down_web k)) = Inl (session_fault k)"
  by (simp add: input_defs code_defs)

lemma py_range_3: "py_range 3 = [0, 1, 2]"
  by (simp add: py_range_def upto_rec1)

lemma soft_then_good_run:
  "scrape_news init soft_then_good =
     (Inr [article_a, article_b], [Attempt 0, Log WARNING, Attempt 1])"
  by (simp add: scrape_news_def py_range_3 soft_then_good_def good_run empty_run init_simps)

lemma hard_then_good_run:
  "scrape_news init hard_then_good =
     (Inr [article_a, article_b], [Attempt 0, Log ERROR, Log INFO, Sleep 5, Attempt 1])"
  by (simp add: scrape_news_def py_range_3 hard_then_good_def good_run down_run init_simps
        sleep_def)

lemma extract_item_a:
  "extract_container item_a =
     (Inr (Some \<lparr>info_title = ''Title A'', info_link = PyStr ''https://x/a'',
                  info_kicker = ''Breaking'', info_image = PyStr ''https://x/a.jpg''\<rparr>),
      [Find (CLASS_NAME, ''titulo''), Find (TAG_NAME, ''a''), Find (CLASS_NAME, ''volanta''),
       Find (TAG_NAME, ''img'')])"
  by (simp add: input_defs code_defs)

lemma extract_item_b: "fst (extract_container item_b) = Inr (Some draft_b)"
  by (simp add: input_defs code_defs)

subsection \<open>The exception classes\<close>

lemma isinstance_Exception: "isinstance e Exception"
  by (simp add: isinstance_def)

subsection \<open>Article\<close>

text \<open>
  C10: \<^verbatim>\<open>__post_init__\<close> overwrites \<open>scrape_date\<close> with the current time whatever the
  caller passed: the timestamp of every constructed Article is its construction time, and
  the other four fields are the arguments.
\<close>

theorem Article_scrape_date_is_construction_time:
  "scrape_date (Article_init now t k l i sd) = PyStr now
   \<and> Article_init now t k l i sd = Article_init now t k l i PyNone
   \<and> title (Article_init now t k l i sd) = t
   \<and> kicker (Article_init now t k l i sd) = k
   \<and> link (Article_init now t k l i sd) = l
   \<and> image (Article_init now t k l i sd) = i"
  by (simp add: Article_init_def post_init_def)

subsection \<open>Trimming\<close>

text \<open>
  What \<open>strip\<close> removes: a prefix and a suffix of whitespace, and all of it, so that
  the result neither starts nor ends with whitespace and is empty exactly when the text is
  whitespace only.
\<close>

lemma all_dropWhile: "(\<forall>x\<in>set (dropWhile P xs). P x) \<longleftrightarrow> (\<forall>x\<in>set xs. P x)"
  by (induction xs) auto

lemma rev_dropWhile_takeWhile:
  "xs = rev (dropWhile P (rev xs)) @ rev (takeWhile P (rev xs))"
  by (metis rev_append rev_rev_ident takeWhile_dropWhile_id)

lemma strip_empty_iff: "strip t = [] \<longleftrightarrow> (\<forall>c\<in>set t. isspace c)"
  by (simp add: strip_def dropWhile_eq_Nil_conv all_dropWhile)

lemma strip_decompose:
  "\<exists>pre post. t = pre @ strip t @ post
     \<and> (\<forall>c\<in>set pre. isspace c) \<and> (\<forall>c\<in>set post. isspace c)"
proof -
  let ?r = "dropWhile isspace t"
  have 1: "t = takeWhile isspace t @ ?r" by simp
  have 2: "?r = strip t @ rev (takeWhile isspace (rev ?r))"
    unfolding strip_def by (rule rev_dropWhile_takeWhile)
  have 3: "\<forall>c\<in>set (takeWhile isspace t). isspace c"
    by (auto dest: set_takeWhileD)
  have 4: "\<forall>c\<in>set (rev (takeWhile isspace (rev ?r))). isspace c"
    by (auto dest: set_takeWhileD)
  from 1 2 have "t = takeWhile isspace t @ strip t @ rev (takeWhile isspace (rev ?r))"
    by simp
  with 3 4 show ?thesis by blast
qed

lemma strip_ends:
  assumes "strip t \<noteq> []"
  shows "\<not> isspace (hd (strip t)) \<and> \<not> isspace (last (strip t))"
proof -
  let ?r = "dropWhile isspace t"
  let ?m = "dropWhile isspace (rev ?r)"
  from assms have m: "?m \<noteq> []" by (simp add: strip_def)
  have r: "?r \<noteq> []"
  proof
    assume "?r = []"
    then have "?m = []" by (metis dropWhile.simps(1) rev.simps(1))
    with m show False ..
  qed
  have l: "\<not> isspace (hd ?m)" using m by (rule hd_dropWhile)
  have "last (strip t) = hd ?m" using m by (simp add: strip_def last_rev)
  with l have a: "\<not> isspace (last (strip t))" by simp
  have "?r = strip t @ rev (takeWhile isspace (rev ?r))"
    unfolding strip_def by (rule rev_dropWhile_takeWhile)
  with assms have "hd ?r = hd (strip t)" by (metis hd_append2)
  moreover have "\<not> isspace (hd ?r)" using r by (rule hd_dropWhile)
  ultimately show ?thesis using a by simp
qed

subsection \<open>The field extractor\<close>

lemma safe_find_element_returns:
  "\<exists>r. fst (safe_find_element container by' val default') = Inr r"
  by (auto simp: safe_find_element_def isinstance_Exception split: sum.splits)

text \<open>
  C5: \<^verbatim>\<open>_safe_find_element\<close> never raises. When the descendant is found it returns
  the trimmed text (the text without the whitespace before and after it), or for a lookup
  by tag name the \<^verbatim>\<open>src\<close> attribute; when the lookup raises (not found, or any other
  exception), or reading the text or the attribute raises, it returns the default.
\<close>

theorem safe_find_element_never_raises:
  "(\<exists>r. fst (safe_find_element container by' val default') = Inr r)
   \<and> (\<forall>element t. find_element container (by', val) = Inr element \<and> by' \<noteq> TAG_NAME
          \<and> text_of element = Inr t
        \<longrightarrow> fst (safe_find_element container by' val default') = Inr (PyStr (strip t))
            \<and> (\<exists>pre post. t = pre @ strip t @ post
                  \<and> (\<forall>c\<in>set pre. isspace c) \<and> (\<forall>c\<in>set post. isspace c))
            \<and> (strip t \<noteq> [] \<longrightarrow> \<not> isspace (hd (strip t)) \<and> \<not> isspace (last (strip t))))
   \<and> (\<forall>element a. find_element container (by', val) = Inr element \<and> by' = TAG_NAME
          \<and> get_attribute element ''src'' = Inr a
        \<longrightarrow> fst (safe_find_element container by' val default') = Inr a)
   \<and> (\<forall>e. find_element container (by', val) = Inl e
        \<longrightarrow> fst (safe_find_element container by' val default') = Inr default')
   \<and> (\<forall>element e. find_element container (by', val) = Inr element
          \<and> (if by' \<noteq> TAG_NAME then text_of element = Inl e
              else get_attribute element ''src'' = Inl e)
        \<longrightarrow> fst (safe_find_element container by' val default') = Inr default')"
proof (intro conjI allI impI)
  show "\<exists>r. fst (safe_find_element container by' val default') = Inr r"
    by (rule safe_find_element_returns)
next
  fix element t
  assume "find_element container (by', val) = Inr element \<and> by' \<noteq> TAG_NAME
          \<and> text_of element = Inr t"
  then show "fst (safe_find_element container by' val default') = Inr (PyStr (strip t))"
    by (simp add: safe_find_element_def safe_find_element_try_def)
next
  fix t
  show "\<exists>pre post. t = pre @ strip t @ post
          \<and> (\<forall>c\<in>set pre. isspace c) \<and> (\<forall>c\<in>set post. isspace c)"
    by (rule strip_decompose)
next
  fix t assume "strip t \<noteq> []"
  then show "\<not> isspace (hd (strip t))" "\<not> isspace (last (strip t))"
    using strip_ends by blast+
next
  fix element a
  assume "find_element container (by', val) = Inr element \<and> by' = TAG_NAME
          \<and> get_attribute element ''src'' = Inr a"
  then show "fst (safe_find_element container by' val default') = Inr a"
    by (auto simp: safe_find_element_def safe_find_element_try_def)
next
  fix e assume "find_element container (by', val) = Inl e"
  then show "fst (safe_find_element container by' val default') = Inr default'"
    by (simp add: safe_find_element_def safe_find_element_try_def isinstance_Exception)
next
  fix element e
  assume "find_element container (by', val) = Inr element
          \<and> (if by' \<noteq> TAG_NAME then text_of element = Inl e
              else get_attribute element ''src'' = Inl e)"
  then show "fst (safe_find_element container by' val default') = Inr default'"
    by (auto simp: safe_find_element_def safe_find_element_try_def isinstance_Exception
          split: if_splits)
qed

theorem safe_find_element_never_raises_witness:
  "find_element item_a (CLASS_NAME, ''volanta'') = Inr (elem ''  Breaking '' [] [])
   \<and> text_of (elem ''  Breaking '' [] []) = Inr ''  Breaking ''
   \<and> fst (safe_find_element item_a CLASS_NAME ''volanta'' (PyStr ''none''))
       = Inr (PyStr ''Breaking'')
   \<and> find_element item_bare (CLASS_NAME, ''volanta'') = Inl no_such
   \<and> fst (safe_find_element item_bare CLASS_NAME ''volanta'' (PyStr ''none''))
       = Inr (PyStr ''none'')"
proof -
  have f: "find_element item_a (CLASS_NAME, ''volanta'') = Inr (elem ''  Breaking '' [] [])"
    by (simp add: item_a_def elem_def)
  have t: "text_of (elem ''  Breaking '' [] []) = Inr ''  Breaking ''"
    by (simp add: elem_def)
  have s: "strip ''  Breaking '' = ''Breaking''"
    by (simp add: strip_def isspace_def)
  have n: "find_element item_bare (CLASS_NAME, ''volanta'') = Inl no_such"
    by (simp add: item_bare_def elem_def)
  from safe_find_element_never_raises
         [of item_a CLASS_NAME "''volanta''" "PyStr ''none''",
          THEN conjunct2, THEN conjunct1, rule_format,
          of "elem ''  Breaking '' [] []" "''  Breaking ''"] f t s
  have a: "fst (safe_find_element item_a CLASS_NAME ''volanta'' (PyStr ''none''))
             = Inr (PyStr ''Breaking'')"
    by simp
  from safe_find_element_never_raises
         [of item_bare CLASS_NAME "''volanta''" "PyStr ''none''",
          THEN conjunct2, THEN conjunct2, THEN conjunct2, THEN conjunct1, rule_format,
          of no_such] n
  have b: "fst (safe_find_element item_bare CLASS_NAME ''volanta'' (PyStr ''none''))
             = Inr (PyStr ''none'')"
    by simp
  from f t n a b show ?thesis by simp
qed

text \<open>
  C9: for a lookup by tag name that finds its element, \<^verbatim>\<open>_safe_find_element\<close> returns
  the value of \<^verbatim>\<open>get_attribute("src")\<close> as it is, neither trimmed nor guarded: for
  an element without that attribute the result is \<^verbatim>\<open>None\<close>, not the default string.
\<close>

theorem safe_find_element_image_is_raw:
  "find_element container (TAG_NAME, val) = Inr element \<Longrightarrow>
   get_attribute element ''src'' = Inr a \<Longrightarrow>
   fst (safe_find_element container TAG_NAME val default') = Inr a"
  by (simp add: safe_find_element_def safe_find_element_try_def)

theorem safe_find_element_image_is_raw_witness:
  "find_element item_b (TAG_NAME, ''img'') = Inr (elem '''' [] [])
   \<and> get_attribute (elem '''' [] []) ''src'' = Inr PyNone
   \<and> fst (safe_find_element item_b TAG_NAME ''img'' (PyStr '''')) = Inr PyNone"
proof -
  have f: "find_element item_b (TAG_NAME, ''img'') = Inr (elem '''' [] [])"
    by (simp add: item_b_def elem_def)
  have g: "get_attribute (elem '''' [] []) ''src'' = Inr PyNone"
    by (simp add: elem_def)
  from safe_find_element_image_is_raw [OF f g, of "PyStr ''''"] f g show ?thesis by simp
qed

subsection \<open>The selector loop\<close>

text \<open>
  The two predicates on the page, in terms of what the body of the loop computes.
\<close>

lemma yields_iff:
  "yields finder s \<longleftrightarrow>
     (case selector_text finder s of Inr t \<Rightarrow> t \<noteq> [] | Inl e \<Rightarrow> False)"
  by (auto simp: yields_def selector_text_def strip_empty_iff split: sum.splits)

lemma passed_over_iff:
  "passed_over finder s \<longleftrightarrow>
     (case selector_text finder s of
        Inr t \<Rightarrow> t = []
      | Inl e \<Rightarrow> isinstance e NoSuchElementException)"
  by (auto simp: passed_over_def selector_text_def strip_empty_iff isinstance_def
        split: sum.splits)



lemma try_selectors_first:
  "i < length sels \<Longrightarrow> \<forall>j<i. passed_over finder (sels ! j) \<Longrightarrow>
   selector_text finder (sels ! i) = Inr t \<Longrightarrow> t \<noteq> [] \<Longrightarrow>
   try_selectors finder sels = (Inr (Some t), map Find (take (Suc i) sels))"
proof (induction sels arbitrary: i)
  case Nil
  then show ?case by simp
next
  case (Cons s sels)
  show ?case
  proof (cases i)
    case 0
    with Cons.prems show ?thesis by simp
  next
    case (Suc i')
    have p: "passed_over finder s" using Cons.prems(2) Suc by auto
    have "\<forall>j<i'. passed_over finder (sels ! j)" using Cons.prems(2) Suc by auto
    then have "try_selectors finder sels = (Inr (Some t), map Find (take (Suc i') sels))"
      using Cons.IH [of i'] Cons.prems Suc by simp
    with p Suc show ?thesis
      by (auto simp: passed_over_iff split: sum.splits)
  qed
qed

lemma try_selectors_stops:
  "i < length sels \<Longrightarrow> yields finder (sels ! i) \<Longrightarrow>
   \<exists>n\<le>Suc i. snd (try_selectors finder sels) = map Find (take n sels)"
proof (induction sels arbitrary: i)
  case Nil
  then show ?case by simp
next
  case (Cons s sels)
  show ?case
  proof (cases i)
    case 0
    with Cons.prems have "snd (try_selectors finder (s # sels)) = map Find (take 1 (s # sels))"
      by (auto simp: yields_iff split: sum.splits)
    with 0 show ?thesis by (metis One_nat_def le_refl)
  next
    case (Suc i')
    with Cons.prems Cons.IH [of i'] obtain n where n: "n \<le> Suc i'"
      "snd (try_selectors finder sels) = map Find (take n sels)" by auto
    have "snd (try_selectors finder (s # sels)) = map Find (take 1 (s # sels))
        \<or> snd (try_selectors finder (s # sels)) = map Find (take (Suc n) (s # sels))"
      using n(2) by (auto split: sum.splits prod.splits)
    with n(1) Suc show ?thesis
      by (metis One_nat_def Suc_le_mono le0)
  qed
qed





lemma extract_container_first:
  assumes i: "i < length kicker_selectors"
    and before: "\<forall>j<i. passed_over (find_element container) (kicker_selectors ! j)"
    and t: "selector_text (find_element container) (kicker_selectors ! i) = Inr t" "t \<noteq> []"
    and title: "has_title container"
  shows "\<exists>info. extract_container container =
           (Inr (Some info),
            snd (title_link container) @ map Find (take (Suc i) kicker_selectors)
            @ snd (safe_find_element container TAG_NAME ''img'' (PyStr '''')))
         \<and> info_kicker info = t"
proof -
  from title obtain ttl href tr where tl: "title_link container = (Inr (ttl, href), tr)" "ttl \<noteq> []"
    by (cases "title_link container") (auto simp: has_title_def split: sum.splits)
  obtain img tr3 where img: "safe_find_element container TAG_NAME ''img'' (PyStr '''') = (Inr img, tr3)"
    using safe_find_element_returns [of container TAG_NAME "''img''" "PyStr ''''"]
    by (cases "safe_find_element container TAG_NAME ''img'' (PyStr '''')") auto
  from try_selectors_first [OF i before t] tl img show ?thesis
    by (simp add: extract_container_def extract_container_try_def)
qed

lemma recover_kicker_first:
  assumes i: "i < length article_kicker_selectors"
    and pg: "driver_get w url = Inr pg"
      "wait_presence pg 10 (CLASS_NAME, ''contenido_noticia'') = None"
    and before: "\<forall>j<i. passed_over (driver_find_element pg) (article_kicker_selectors ! j)"
    and t: "selector_text (driver_find_element pg) (article_kicker_selectors ! i) = Inr t" "t \<noteq> []"
  shows "recover_kicker w url info =
           (Inr (Some (info\<lparr>info_kicker := t\<rparr>)),
            [Log INFO, Get url, Wait 10 (CLASS_NAME, ''contenido_noticia'')]
            @ map Find (take (Suc i) article_kicker_selectors))"
  using try_selectors_first [OF i before t] pg by (simp add: recover_kicker_def)

text \<open>
  C6: the selector lists are tried in order and stop at the first selector that yields.
  For the container-scoped list of a listing item with a title, and for the page-scoped
  list after a navigation and a wait that succeeded: when selector \<open>i\<close> is the first
  that yields a non-empty trimmed text \<open>t\<close>, the selectors before it being absent or
  empty, the kicker is \<open>t\<close> and the lookups made are those of selectors \<open>0\<close> to \<open>i\<close>,
  none after \<open>i\<close>. For every list and every handle, whatever the selectors before \<open>i\<close>
  do: when selector \<open>i\<close> yields, the lookups made are those of the first \<open>n\<close>
  selectors for some \<open>n \<le> i + 1\<close>.
\<close>

theorem selector_lists_short_circuit:
  "(\<forall>i t. i < length kicker_selectors
       \<and> (\<forall>j<i. passed_over (find_element container) (kicker_selectors ! j))
       \<and> selector_text (find_element container) (kicker_selectors ! i) = Inr t \<and> t \<noteq> []
       \<and> has_title container \<longrightarrow>
       (\<exists>info. extract_container container =
           (Inr (Some info),
            snd (title_link container) @ map Find (take (Suc i) kicker_selectors)
            @ snd (safe_find_element container TAG_NAME ''img'' (PyStr '''')))
         \<and> info_kicker info = t))
   \<and> (\<forall>i t pg. i < length article_kicker_selectors
       \<and> driver_get w url = Inr pg
       \<and> wait_presence pg 10 (CLASS_NAME, ''contenido_noticia'') = None
       \<and> (\<forall>j<i. passed_over (driver_find_element pg) (article_kicker_selectors ! j))
       \<and> selector_text (driver_find_element pg) (article_kicker_selectors ! i) = Inr t
       \<and> t \<noteq> [] \<longrightarrow>
       recover_kicker w url info =
         (Inr (Some (info\<lparr>info_kicker := t\<rparr>)),
          [Log INFO, Get url, Wait 10 (CLASS_NAME, ''contenido_noticia'')]
          @ map Find (take (Suc i) article_kicker_selectors)))
   \<and> (\<forall>i. i < length sels \<and> yields finder (sels ! i) \<longrightarrow>
        (\<exists>n\<le>Suc i. snd (try_selectors finder sels) = map Find (take n sels)))"
  using extract_container_first [of _ container] recover_kicker_first [of _ w url _ _ info]
    try_selectors_stops [of _ sels finder]
  by blast

theorem selector_lists_short_circuit_witness:
  "selector_text (find_element item_a) (kicker_selectors ! 0) = Inr ''Breaking''
   \<and> has_title item_a
   \<and> snd (extract_container item_a) =
       [Find (CLASS_NAME, ''titulo''), Find (TAG_NAME, ''a''), Find (CLASS_NAME, ''volanta''),
        Find (TAG_NAME, ''img'')]
   \<and> driver_get good_web ''https://x/b'' = Inr detail_page_b
   \<and> passed_over (driver_find_element detail_page_b) (article_kicker_selectors ! 0)
   \<and> passed_over (driver_find_element detail_page_b) (article_kicker_selectors ! 1)
   \<and> selector_text (driver_find_element detail_page_b) (article_kicker_selectors ! 2)
       = Inr ''Recovered''
   \<and> recover_kicker good_web ''https://x/b'' draft_b =
       (Inr (Some (draft_b\<lparr>info_kicker := ''Recovered''\<rparr>)),
        [Log INFO, Get ''https://x/b'', Wait 10 (CLASS_NAME, ''contenido_noticia''),
         Find (CLASS_NAME, ''volanta_noticia''),
         Find (CLASS_NAME, ''volanta_noticia fuente_roboto_slab''),
         Find (CSS_SELECTOR, ''.slot.contenido_fijo.titulo_de_noticia .volanta_noticia'')])"
proof -
  note T = selector_lists_short_circuit
    [where container = item_a and w = good_web and url = "''https://x/b''" and info = draft_b]
  have a0: "selector_text (find_element item_a) (kicker_selectors ! 0) = Inr ''Breaking''"
    by (simp add: item_a_def elem_def selector_text_def kicker_selectors_def strip_def isspace_def)
  have a1: "has_title item_a"
    by (simp add: has_title_def title_link_def item_a_def elem_def strip_def isspace_def)
  have a2: "snd (title_link item_a) = [Find (CLASS_NAME, ''titulo''), Find (TAG_NAME, ''a'')]"
    by (simp add: title_link_def item_a_def elem_def)
  have a3: "snd (safe_find_element item_a TAG_NAME ''img'' (PyStr '''')) = [Find (TAG_NAME, ''img'')]"
    by (simp add: safe_find_element_def safe_find_element_try_def item_a_def elem_def)
  from T [THEN conjunct1, rule_format, of 0 "''Breaking''"] a0 a1
  obtain info where "extract_container item_a =
      (Inr (Some info),
       snd (title_link item_a) @ map Find (take (Suc 0) kicker_selectors)
       @ snd (safe_find_element item_a TAG_NAME ''img'' (PyStr '''')))"
    by (auto simp: kicker_selectors_def)
  with a2 a3 have a: "snd (extract_container item_a) =
       [Find (CLASS_NAME, ''titulo''), Find (TAG_NAME, ''a''), Find (CLASS_NAME, ''volanta''),
        Find (TAG_NAME, ''img'')]"
    by (simp add: kicker_selectors_def)
  have b0: "driver_get good_web ''https://x/b'' = Inr detail_page_b"
    by (simp add: good_web_def mk_web_def init_def)
  have b1: "wait_presence detail_page_b 10 (CLASS_NAME, ''contenido_noticia'') = None"
    by (simp add: detail_page_b_def mk_page_def)
  have b2: "passed_over (driver_find_element detail_page_b) (article_kicker_selectors ! 0)"
    by (simp add: passed_over_iff selector_text_def detail_page_b_def mk_page_def
          article_kicker_selectors_def no_such_def isinstance_def)
  have b3: "passed_over (driver_find_element detail_page_b) (article_kicker_selectors ! 1)"
    by (simp add: passed_over_iff selector_text_def detail_page_b_def mk_page_def
          article_kicker_selectors_def no_such_def isinstance_def)
  have b4: "selector_text (driver_find_element detail_page_b) (article_kicker_selectors ! 2)
       = Inr ''Recovered''"
    by (simp add: selector_text_def detail_page_b_def mk_page_def elem_def
          article_kicker_selectors_def strip_def isspace_def)
  have b5: "\<forall>j<2. passed_over (driver_find_element detail_page_b) (article_kicker_selectors ! j)"
    using b2 b3 by (auto simp: less_Suc_eq numeral_2_eq_2)
  have b6: "(2::nat) < length article_kicker_selectors"
    by (simp add: article_kicker_selectors_def)
  from T [THEN conjunct2, THEN conjunct1, rule_format, of 2 detail_page_b "''Recovered''"]
    b0 b1 b4 b5 b6
  have b: "recover_kicker good_web ''https://x/b'' draft_b =
       (Inr (Some (draft_b\<lparr>info_kicker := ''Recovered''\<rparr>)),
        [Log INFO, Get ''https://x/b'', Wait 10 (CLASS_NAME, ''contenido_noticia'')]
        @ map Find (take (Suc 2) article_kicker_selectors))"
    by simp
  have "take (Suc 2) article_kicker_selectors =
      [(CLASS_NAME, ''volanta_noticia''),
       (CLASS_NAME, ''volanta_noticia fuente_roboto_slab''),
       (CSS_SELECTOR, ''.slot.contenido_fijo.titulo_de_noticia .volanta_noticia'')]"
    by (simp add: article_kicker_selectors_def)
  with b have b': "recover_kicker good_web ''https://x/b'' draft_b =
       (Inr (Some (draft_b\<lparr>info_kicker := ''Recovered''\<rparr>)),
        [Log INFO, Get ''https://x/b'', Wait 10 (CLASS_NAME, ''contenido_noticia''),
         Find (CLASS_NAME, ''volanta_noticia''),
         Find (CLASS_NAME, ''volanta_noticia fuente_roboto_slab''),
         Find (CSS_SELECTOR, ''.slot.contenido_fijo.titulo_de_noticia .volanta_noticia'')])"
    by simp
  from a0 a1 a b0 b2 b3 b4 b' show ?thesis by blast
qed

subsection \<open>The listing phase\<close>

lemma title_link_effects:
  "set (snd (title_link container)) \<subseteq> {Find (CLASS_NAME, ''titulo''), Find (TAG_NAME, ''a'')}"
  by (auto simp: title_link_def split: sum.splits)

lemma extract_container_returns: "\<exists>r. fst (extract_container container) = Inr r"
  by (auto simp: extract_container_def isinstance_Exception split: sum.splits prod.splits)

lemma extract_container_no_title:
  "\<not> has_title container \<Longrightarrow> fst (extract_container container) = Inr None"
  by (auto simp: has_title_def extract_container_def extract_container_try_def
        isinstance_Exception split: sum.splits prod.splits)

lemma extract_containers_filter:
  "fst (extract_containers cs) = fst (extract_containers (filter has_title cs))"
proof (induction cs)
  case Nil
  then show ?case by simp
next
  case (Cons c cs)
  obtain r where r: "fst (extract_container c) = Inr r"
    using extract_container_returns by blast
  show ?case
  proof (cases "has_title c")
    case True
    with Cons r show ?thesis by (auto split: sum.splits prod.splits)
  next
    case False
    with extract_container_no_title r have "r = None" by auto
    with Cons r False show ?thesis by (auto split: sum.splits prod.splits)
  qed
qed


text \<open>
  C7: a listing item whose nested title-link lookup raises is left out, having made no
  lookup but the fixed two (and logged, unless the exception is
  \<^verbatim>\<open>NoSuchElementException\<close>); an item whose title is empty after trimming is left out
  whatever link was resolved; the drafts of a listing are those of its items that have a
  title. The lookup of title and link uses the two fixed locators only.
\<close>

theorem untitled_items_are_excluded:
  "(\<forall>e. fst (title_link container) = Inl e \<longrightarrow>
      extract_container container =
        (Inr None, snd (title_link container)
                   @ (if isinstance e NoSuchElementException then [] else [Log ERROR])))
   \<and> (\<forall>href. fst (title_link container) = Inr ([], href) \<longrightarrow>
        extract_container container = (Inr None, snd (title_link container)))
   \<and> set (snd (title_link container))
       \<subseteq> {Find (CLASS_NAME, ''titulo''), Find (TAG_NAME, ''a'')}
   \<and> fst (extract_containers cs) = fst (extract_containers (filter has_title cs))"
proof (intro conjI allI impI)
  fix e assume "fst (title_link container) = Inl e"
  then show "extract_container container =
        (Inr None, snd (title_link container)
                   @ (if isinstance e NoSuchElementException then [] else [Log ERROR]))"
    by (cases "title_link container")
       (simp add: extract_container_def extract_container_try_def isinstance_Exception)
next
  fix href assume "fst (title_link container) = Inr ([], href)"
  then show "extract_container container = (Inr None, snd (title_link container))"
    by (cases "title_link container")
       (simp add: extract_container_def extract_container_try_def)
next
  show "set (snd (title_link container))
        \<subseteq> {Find (CLASS_NAME, ''titulo''), Find (TAG_NAME, ''a'')}"
    by (rule title_link_effects)
next
  show "fst (extract_containers cs) = fst (extract_containers (filter has_title cs))"
    by (rule extract_containers_filter)
qed

theorem untitled_items_are_excluded_witness:
  "fst (title_link item_bare) = Inl no_such
   \<and> extract_container item_bare = (Inr None, [Find (CLASS_NAME, ''titulo'')])
   \<and> fst (title_link item_blank) = Inr ([], PyStr ''https://x/c'')
   \<and> extract_container item_blank
       = (Inr None, [Find (CLASS_NAME, ''titulo''), Find (TAG_NAME, ''a'')])
   \<and> fst (extract_containers [item_a, item_blank, item_bare, item_b])
       = fst (extract_containers [item_a, item_b])"
proof -
  have bare: "title_link item_bare = (Inl no_such, [Find (CLASS_NAME, ''titulo'')])"
    by (simp add: title_link_def item_bare_def elem_def)
  have blank: "title_link item_blank =
      (Inr ([], PyStr ''https://x/c''), [Find (CLASS_NAME, ''titulo''), Find (TAG_NAME, ''a'')])"
    by (simp add: title_link_def item_blank_def elem_def strip_def isspace_def)
  have titled: "has_title item_a" "has_title item_b"
    by (simp_all add: has_title_def title_link_def item_a_def item_b_def elem_def
          strip_def isspace_def)
  have untitled: "\<not> has_title item_bare" "\<not> has_title item_blank"
    by (simp_all add: has_title_def bare blank)
  have ns: "isinstance no_such NoSuchElementException"
    by (simp add: isinstance_def no_such_def)
  from untitled_items_are_excluded
         [where container = item_bare, THEN conjunct1, rule_format, of no_such] bare ns
  have a: "extract_container item_bare = (Inr None, [Find (CLASS_NAME, ''titulo'')])"
    by simp
  from untitled_items_are_excluded
         [where container = item_blank, THEN conjunct2, THEN conjunct1, rule_format,
          of "PyStr ''https://x/c''"] blank
  have b: "extract_container item_blank
       = (Inr None, [Find (CLASS_NAME, ''titulo''), Find (TAG_NAME, ''a'')])"
    by simp
  from untitled_items_are_excluded
         [where cs = "[item_a, item_blank, item_bare, item_b]",
          THEN conjunct2, THEN conjunct2, THEN conjunct2] titled untitled
  have c: "fst (extract_containers [item_a, item_blank, item_bare, item_b])
       = fst (extract_containers [item_a, item_b])"
    by simp
  from bare blank a b c show ?thesis by simp
qed

subsection \<open>The detail-page phase\<close>






text \<open>
  A draft whose recovery is attempted and whose navigation raises, or whose wait for the
  marker raises, yields no Article, whatever the exception.
\<close>

lemma failed_recovery_skips_article:
  assumes "info_kicker info = []" "info_link info = PyStr url" "url \<noteq> []"
    and "case driver_get w url of
           Inl e \<Rightarrow> True
         | Inr pg \<Rightarrow> wait_presence pg 10 (CLASS_NAME, ''contenido_noticia'') \<noteq> None"
  shows "fst (process_article_info w now_iso info) = Inr None"
  using assms
  by (auto simp: process_article_info_def process_article_info_try_def recover_kicker_def
        isinstance_Exception split: sum.splits option.splits)

text \<open>
  C1: what the code does when the recovery of a draft fails. The listing shows the one
  item B, without a kicker, and the navigation to its page times out: the failure is
  logged and nothing is raised, but the \<^verbatim>\<open>continue\<close> of the handler also skips the
  construction of the Article, so the draft yields no Article and the pipeline returns the
  empty list. The unused \<^verbatim>\<open>_get_article_kicker\<close> returns the empty string on the same
  failure, which leaves the article to its caller; and when the page of B loads without
  a kicker, the pipeline returns the article of B with an empty kicker.
\<close>

theorem failed_recovery_drops_article:
  "fst (extract_containers [item_b]) = Inr [draft_b]
   \<and> driver_get timeout_web ''https://x/b'' = Inl timed_out
   \<and> process_article_info timeout_web ''2025-01-01T00:00:00'' draft_b
       = (Inr None, [Log INFO, Get ''https://x/b'', Log ERROR])
   \<and> fst (scrape_with_selenium init timeout_web) = Inr []
   \<and> get_article_kicker timeout_web ''https://x/b'' = (Inr '''', [Get ''https://x/b'', Log ERROR])
   \<and> fst (scrape_with_selenium init plain_web)
       = Inr [build_article ''2025-01-01T00:00:00'' draft_b]
   \<and> kicker (build_article ''2025-01-01T00:00:00'' draft_b) = ''''"
proof -
  have a: "fst (extract_containers [item_b]) = Inr [draft_b]"
    using extract_item_b by (cases "extract_container item_b") auto
  have b: "driver_get timeout_web ''https://x/b'' = Inl timed_out"
    by (simp add: timeout_web_def mk_web_def init_def)
  have c: "process_article_info timeout_web ''2025-01-01T00:00:00'' draft_b
       = (Inr None, [Log INFO, Get ''https://x/b'', Log ERROR])"
    by (simp add: b process_article_info_def process_article_info_try_def recover_kicker_def
          draft_b_def timed_out_def isinstance_def)
  have d: "fst (scrape_with_selenium init timeout_web) = Inr []"
    by (simp add: input_defs code_defs)
  have e: "get_article_kicker timeout_web ''https://x/b'' = (Inr '''', [Get ''https://x/b'', Log ERROR])"
    by (simp add: b get_article_kicker_def get_article_kicker_try_def isinstance_def)
  have f: "fst (scrape_with_selenium init plain_web)
       = Inr [build_article ''2025-01-01T00:00:00'' draft_b]"
    by (simp add: input_defs code_defs)
  have g: "kicker (build_article ''2025-01-01T00:00:00'' draft_b) = ''''"
    by (simp add: build_article_def Article_init_def post_init_def draft_b_def)
  from a b c d e f g show ?thesis by simp
qed

subsection \<open>The retry loop\<close>

lemma loop_attempts_le:
  "length (filter is_Attempt (snd (scrape_news_loop p webs ks))) \<le> length ks"
  by (induction ks) (auto split: sum.splits prod.splits option.splits)

lemma length_py_range: "length (py_range n) = nat n"
  by (simp add: py_range_def)

lemma py_range_split:
  "0 \<le> k \<Longrightarrow> k < n \<Longrightarrow> py_range n = [0..k - 1] @ k # [k + 1..n - 1]"
  unfolding py_range_def using upto_split3 [of 0 k "n - 1"] by simp

lemma loop_head: "\<exists>tl. snd (scrape_news_loop p webs (a # zs)) = Attempt a # tl"
  by (auto split: sum.splits prod.splits option.splits)

lemma loop_success:
  "Attempt k \<in> set (snd (scrape_news_loop p webs ks)) \<Longrightarrow>
   fst (scrape_with_selenium p (webs k)) = Inr as \<Longrightarrow> as \<noteq> [] \<Longrightarrow>
   fst (scrape_news_loop p webs ks) = Inr as
   \<and> last (snd (scrape_news_loop p webs ks)) = Attempt k"
proof (induction ks)
  case Nil
  then show ?case by simp
next
  case (Cons a rest)
  show ?case
  proof (cases "a = k")
    case True
    with Cons.prems show ?thesis by simp
  next
    case False
    obtain r tr where rest: "scrape_news_loop p webs rest = (r, tr)"
      by (cases "scrape_news_loop p webs rest")
    with Cons.prems(1) False have mem: "Attempt k \<in> set tr"
      by (auto split: sum.splits if_splits option.splits)
    then have ne: "tr \<noteq> []" by auto
    from mem rest Cons.IH Cons.prems have ih: "r = Inr as" "last tr = Attempt k" by auto
    from Cons.prems(1) False rest mem ne ih show ?thesis
      by (auto split: sum.splits if_splits option.splits)
  qed
qed

lemma sleep_nonneg: "0 \<le> d \<Longrightarrow> sleep d = None"
  by (simp add: sleep_def)

lemma loop_skip:
  "0 \<le> retry_delay p \<Longrightarrow>
   \<forall>x\<in>set xs. \<not> succeeded (fst (scrape_with_selenium p (webs x))) \<and> x < max_retries p - 1 \<Longrightarrow>
   \<exists>pre. scrape_news_loop p webs (xs @ ys) =
     (fst (scrape_news_loop p webs ys), pre @ snd (scrape_news_loop p webs ys))"
proof (induction xs)
  case Nil
  show ?case by (rule exI [of _ "[]"]) simp
next
  case (Cons x xs)
  then obtain pre where pre: "scrape_news_loop p webs (xs @ ys) =
     (fst (scrape_news_loop p webs ys), pre @ snd (scrape_news_loop p webs ys))" by auto
  from Cons.prems(2)
  have x: "\<not> succeeded (fst (scrape_with_selenium p (webs x)))" "x < max_retries p - 1"
    by auto
  show ?case
  proof (cases "fst (scrape_with_selenium p (webs x))")
    case (Inl e)
    with x pre Cons.prems(1) have "scrape_news_loop p webs ((x # xs) @ ys) =
      (fst (scrape_news_loop p webs ys),
       ([Attempt x, Log ERROR, Log INFO, Sleep (retry_delay p)] @ pre)
       @ snd (scrape_news_loop p webs ys))"
      by (simp add: sleep_nonneg)
    then show ?thesis by blast
  next
    case (Inr articles)
    with x pre have "scrape_news_loop p webs ((x # xs) @ ys) =
      (fst (scrape_news_loop p webs ys),
       ([Attempt x, Log WARNING] @ pre) @ snd (scrape_news_loop p webs ys))"
      by (simp add: succeeded_def)
    then show ?thesis by blast
  qed
qed

text \<open>
  C3: \<^verbatim>\<open>scrape_news\<close> calls the pipeline at most \<^verbatim>\<open>max_retries\<close> times, and an
  attempt that is made and returns a non-empty list ends the run: that list is the result
  and the call of that attempt is the last effect of the loop.
\<close>

theorem scrape_news_attempts_bounded:
  "length (filter is_Attempt (snd (scrape_news p webs))) \<le> nat (max_retries p)
   \<and> (\<forall>k as. Attempt k \<in> set (snd (scrape_news p webs))
         \<and> fst (scrape_with_selenium p (webs k)) = Inr as \<and> as \<noteq> []
        \<longrightarrow> fst (scrape_news p webs) = Inr as
            \<and> last (snd (scrape_news p webs)) = Attempt k)"
  using loop_attempts_le [of p webs "py_range (max_retries p)"]
    loop_success [of _ p webs "py_range (max_retries p)"]
  by (auto simp: scrape_news_def length_py_range)

theorem scrape_news_attempts_bounded_witness:
  "length (filter is_Attempt (snd (scrape_news init soft_then_good))) \<le> nat (max_retries init)
   \<and> Attempt 1 \<in> set (snd (scrape_news init soft_then_good))
   \<and> fst (scrape_with_selenium init (soft_then_good 1)) = Inr [article_a, article_b]
   \<and> fst (scrape_news init soft_then_good) = Inr [article_a, article_b]
   \<and> last (snd (scrape_news init soft_then_good)) = Attempt 1"
proof -
  note T = scrape_news_attempts_bounded [of init soft_then_good]
  have m: "Attempt 1 \<in> set (snd (scrape_news init soft_then_good))"
    by (simp add: soft_then_good_run)
  have g: "fst (scrape_with_selenium init (soft_then_good 1)) = Inr [article_a, article_b]"
    by (simp add: soft_then_good_def good_run)
  from T [THEN conjunct2, rule_format, of 1 "[article_a, article_b]"] m g
  have r: "fst (scrape_news init soft_then_good) = Inr [article_a, article_b]
           \<and> last (snd (scrape_news init soft_then_good)) = Attempt 1"
    by simp
  from T [THEN conjunct1] m g r show ?thesis by simp
qed

text \<open>
  With a negative \<^verbatim>\<open>retry_delay\<close> the first attempt that raises is the last:
  \<^verbatim>\<open>time.sleep\<close> raises \<^verbatim>\<open>ValueError\<close> in the handler, and that exception leaves
  \<^verbatim>\<open>scrape_news\<close>.
\<close>

lemma negative_delay_ends_the_run:
  assumes "1 < max_retries p" and "retry_delay p < 0"
    and "fst (scrape_with_selenium p (webs 0)) = Inl e"
  shows "scrape_news p webs =
     (Inl (Exn ValueError ''sleep length must be non-negative''),
      [Attempt 0, Log ERROR, Log INFO, Sleep (retry_delay p)])"
proof -
  from assms(1) have "py_range (max_retries p) = 0 # [0 + 1..max_retries p - 1]"
    unfolding py_range_def by (intro upto_rec1) simp
  with assms show ?thesis by (simp add: scrape_news_def sleep_def)
qed

text \<open>
  C4: with \<^verbatim>\<open>max_retries = 3\<close> and a \<^verbatim>\<open>retry_delay\<close> that is not negative, when
  each of the three attempts raises (a session fault or any other exception),
  \<^verbatim>\<open>scrape_news\<close> raises the exception of the last attempt after three calls of the
  pipeline and two sleeps of \<^verbatim>\<open>retry_delay\<close>, one after each of the first two
  attempts and none after the third.
\<close>

theorem three_faults_three_attempts_two_delays:
  assumes "max_retries p = 3" and "0 \<le> retry_delay p"
    and "\<forall>k\<in>{0, 1, 2}. fst (scrape_with_selenium p (webs k)) = Inl (e k)"
  shows "scrape_news p webs =
     (Inl (e 2),
      [Attempt 0, Log ERROR, Log INFO, Sleep (retry_delay p),
       Attempt 1, Log ERROR, Log INFO, Sleep (retry_delay p),
       Attempt 2, Log ERROR, Log ERROR])"
  using assms by (simp add: scrape_news_def py_range_3 sleep_nonneg)

theorem three_faults_three_attempts_two_delays_witness:
  "max_retries init = 3
   \<and> 0 \<le> retry_delay init
   \<and> fst (scrape_with_selenium init (down_web 0)) = Inl (session_fault 0)
   \<and> fst (scrape_with_selenium init (down_web 1)) = Inl (session_fault 1)
   \<and> fst (scrape_with_selenium init (down_web 2)) = Inl (session_fault 2)
   \<and> isinstance (session_fault 2) WebDriverException
   \<and> scrape_news init down_web =
       (Inl (session_fault 2),
        [Attempt 0, Log ERROR, Log INFO, Sleep 5,
         Attempt 1, Log ERROR, Log INFO, Sleep 5,
         Attempt 2, Log ERROR, Log ERROR])"
proof -
  have m: "max_retries init = 3" by (simp add: init_simps)
  have d: "0 \<le> retry_delay init" by (simp add: init_simps)
  have f: "\<forall>k\<in>{0, 1, 2}. fst (scrape_with_selenium init (down_web k)) = Inl (session_fault k)"
    by (simp add: down_run)
  have i: "isinstance (session_fault 2) WebDriverException"
    by (simp add: isinstance_def session_fault_def)
  from three_faults_three_attempts_two_delays [OF m d f] m d i show ?thesis
    by (simp add: down_run init_simps)
qed

text \<open>
  C2, as the claim states it, fails: after an attempt that returns no article the loop
  goes to the next attempt at once, without the sleep that follows an attempt that raised.
\<close>

theorem soft_failure_is_not_delayed:
  "fst (scrape_with_selenium init (soft_then_good 0)) = Inr []
   \<and> snd (scrape_news init soft_then_good) = [Attempt 0, Log WARNING, Attempt 1]
   \<and> fst (scrape_with_selenium init (hard_then_good 0)) = Inl (session_fault 0)
   \<and> snd (scrape_news init hard_then_good)
       = [Attempt 0, Log ERROR, Log INFO, Sleep 5, Attempt 1]"
  by (simp add: soft_then_good_run hard_then_good_run soft_then_good_def hard_then_good_def
        empty_run down_run)

text \<open>
  C2, amended: for a \<^verbatim>\<open>retry_delay\<close> that is not negative, an attempt within the
  bound that is reached (no attempt before it succeeded) and returns no article is logged
  as a warning and followed at once by the
  call of the next attempt, with no sleep between; when it is the last attempt of the
  bound, the run ends there and \<^verbatim>\<open>scrape_news\<close> returns the empty list instead of
  raising.
\<close>

theorem soft_failure_retried_without_delay:
  assumes k: "0 \<le> k" "k < max_retries p"
    and delay: "0 \<le> retry_delay p"
    and reached: "\<forall>j. 0 \<le> j \<and> j < k \<longrightarrow> \<not> succeeded (fst (scrape_with_selenium p (webs j)))"
    and soft: "fst (scrape_with_selenium p (webs k)) = Inr []"
  shows "\<exists>pre post. snd (scrape_news p webs) = pre @ [Attempt k, Log WARNING] @ post
           \<and> (if k + 1 < max_retries p then \<exists>post'. post = Attempt (k + 1) # post'
              else post = [] \<and> fst (scrape_news p webs) = Inr [])"
proof -
  let ?ys = "[k + 1..max_retries p - 1]"
  have "\<forall>x\<in>set [0..k - 1].
          \<not> succeeded (fst (scrape_with_selenium p (webs x))) \<and> x < max_retries p - 1"
    using reached k by auto
  from loop_skip [OF delay this, of "k # ?ys"] obtain pre where pre:
    "scrape_news_loop p webs ([0..k - 1] @ k # ?ys) =
       (fst (scrape_news_loop p webs (k # ?ys)), pre @ snd (scrape_news_loop p webs (k # ?ys)))"
    by blast
  have step: "scrape_news_loop p webs (k # ?ys) =
    (fst (scrape_news_loop p webs ?ys),
     [Attempt k, Log WARNING] @ snd (scrape_news_loop p webs ?ys))"
    using soft by (simp split: prod.splits)
  have run: "scrape_news p webs =
    (fst (scrape_news_loop p webs ?ys),
     pre @ [Attempt k, Log WARNING] @ snd (scrape_news_loop p webs ?ys))"
    using pre step py_range_split [OF k] by (simp add: scrape_news_def)
  show ?thesis
  proof (cases "k + 1 < max_retries p")
    case True
    then have "?ys = (k + 1) # [k + 1 + 1..max_retries p - 1]"
      using upto_rec1 [of "k + 1" "max_retries p - 1"] by simp
    with loop_head [of p webs "k + 1" "[k + 1 + 1..max_retries p - 1]"]
    obtain tl where "snd (scrape_news_loop p webs ?ys) = Attempt (k + 1) # tl" by auto
    with run True show ?thesis by auto
  next
    case False
    then have "?ys = []" by simp
    with run False show ?thesis by auto
  qed
qed

theorem soft_failure_retried_without_delay_witness:
  "max_retries init = 3
   \<and> 0 \<le> retry_delay init
   \<and> succeeded (fst (scrape_with_selenium init (hard_hard_soft 0))) = False
   \<and> succeeded (fst (scrape_with_selenium init (hard_hard_soft 1))) = False
   \<and> fst (scrape_with_selenium init (hard_hard_soft 2)) = Inr []
   \<and> fst (scrape_news init hard_hard_soft) = Inr []"
proof -
  have m: "max_retries init = 3" by (simp add: init_simps)
  have f: "\<And>j. j \<noteq> 2 \<Longrightarrow> \<not> succeeded (fst (scrape_with_selenium init (hard_hard_soft j)))"
    by (simp add: hard_hard_soft_def down_run succeeded_def)
  have s: "fst (scrape_with_selenium init (hard_hard_soft 2)) = Inr []"
    by (simp add: hard_hard_soft_def empty_run)
  have r: "\<forall>j. 0 \<le> j \<and> j < 2 \<longrightarrow> \<not> succeeded (fst (scrape_with_selenium init (hard_hard_soft j)))"
    using f by auto
  have d: "0 \<le> retry_delay init" by (simp add: init_simps)
  from soft_failure_retried_without_delay [of 2 init hard_hard_soft, OF _ _ d r s] m
  have "fst (scrape_news init hard_hard_soft) = Inr []"
    by auto
  with m d f [of 0] f [of 1] s show ?thesis by simp
qed

end
